theory Spec2Isabelle
  imports Complex_Main "HOL-Library.Sublist"
begin

section \<open>The schema of \<^verbatim>\<open>backend/db.sql\<close>\<close>

text \<open>
  A table is the list of its rows. A \<^verbatim>\<open>TEXT\<close> column is a \<^typ>\<open>string\<close>, a nullable one a
  \<^typ>\<open>string option\<close> with \<open>None\<close> for \<^verbatim>\<open>NULL\<close>. A \<^verbatim>\<open>NUMERIC\<close> column holds an exact
  decimal number and SQL adds and subtracts such numbers exactly, so it is a \<^typ>\<open>rat\<close>.
  The columns \<^verbatim>\<open>id\<close>, \<^verbatim>\<open>user_id\<close>, \<^verbatim>\<open>created_at\<close> and \<^verbatim>\<open>updated_at\<close> occur in several
  tables and carry the table's prefix here.
\<close>

record account =
  acc_id :: string
  acc_user_id :: string
  account_name :: string
  account_type :: string
  initial_balance :: rat
  current_balance :: rat
  currency :: string
  acc_created_at :: string
  acc_updated_at :: string

record transaction =
  tx_id :: string
  tx_user_id :: string
  account_id :: string
  date :: string
  amount :: rat
  transaction_type :: string
  description :: "string option"
  category_id :: "string option"
  recurrence :: string
  tx_created_at :: string
  tx_updated_at :: string

text \<open>
  Of \<^verbatim>\<open>keyword_rules\<close> the server reads two columns only
  (\<^verbatim>\<open>SELECT category_id, keyword FROM keyword_rules\<close>); the list is in the order in which that
  query returns the rows. Of \<^verbatim>\<open>users\<close> and \<^verbatim>\<open>categories\<close> the transaction handlers use
  nothing but the primary keys, through the foreign keys of \<^verbatim>\<open>transactions\<close>.
\<close>

record keyword_rule =
  kw_category_id :: string
  keyword :: string

record db =
  users :: "string list"
  accounts :: "account list"
  categories :: "string list"
  transactions :: "transaction list"
  keyword_rules :: "keyword_rule list"

section \<open>Requests and responses\<close>

text \<open>
  A text field of a JSON body is a string, or \<open>None\<close> when it is absent or \<^verbatim>\<open>null\<close>: the handlers
  test such a field with \<^verbatim>\<open>!x\<close> and \<^verbatim>\<open>x || d\<close> and hand it to \<^verbatim>\<open>COALESCE\<close>, and none of these
  tells \<^verbatim>\<open>undefined\<close> from \<^verbatim>\<open>null\<close>. A numeric field is tested with \<^verbatim>\<open>=== undefined\<close>, so it
  keeps the two apart. \<open>Number q\<close> is a JSON number that the database reads as \<open>q\<close>.
\<close>

datatype json_number = Absent | Null | Number rat

record transaction_body =
  b_account_id :: "string option"
  b_date :: "string option"
  b_amount :: json_number
  b_transaction_type :: "string option"
  b_description :: "string option"
  b_category_id :: "string option"
  b_recurrence :: "string option"

record account_body =
  b_account_name :: "string option"
  b_account_type :: "string option"
  b_initial_balance :: json_number
  b_currency :: "string option"

text \<open>
  The status codes the handlers send: 400 is the spec's \<open>ValidationError\<close>, 404 its \<open>NotFound\<close>
  and 500 (sent from the \<^verbatim>\<open>catch\<close> block) its \<open>StorageError\<close>. 200 and 201 carry the row that
  \<^verbatim>\<open>RETURNING *\<close> gave.
\<close>

datatype 'row response =
  Status200 'row | Status201 'row | Status204 | Status400 | Status404 | Status500

text \<open>
  JavaScript's truthiness of a text field, and \<^verbatim>\<open>x || d\<close>. For a field \<open>x\<close> that has passed
  the test of truthiness, \<open>js_or x []\<close> is its string.
\<close>

definition truthy :: "string option \<Rightarrow> bool" where
  "truthy x = (case x of None \<Rightarrow> False | Some s \<Rightarrow> s \<noteq> [])"

definition js_or :: "string option \<Rightarrow> string \<Rightarrow> string" where
  "js_or x d = (case x of None \<Rightarrow> d | Some s \<Rightarrow> if s = [] then d else s)"

text \<open>The query parameter the driver sends for a numeric field: \<open>None\<close> is SQL's \<^verbatim>\<open>NULL\<close>.\<close>

fun numeric_param :: "json_number \<Rightarrow> rat option" where
  "numeric_param Absent = None"
| "numeric_param Null = None"
| "numeric_param (Number q) = Some q"

text \<open>\<^verbatim>\<open>COALESCE($n, column)\<close> for a \<^verbatim>\<open>NOT NULL\<close> column and for a nullable one.\<close>

definition coalesce :: "'a option \<Rightarrow> 'a \<Rightarrow> 'a" where
  "coalesce p old = (case p of None \<Rightarrow> old | Some v \<Rightarrow> v)"

definition coalesce_null :: "'a option \<Rightarrow> 'a option \<Rightarrow> 'a option" where
  "coalesce_null p old = (case p of None \<Rightarrow> old | Some v \<Rightarrow> Some v)"

section \<open>The SQL statements\<close>

text \<open>
  The constraints of \<^verbatim>\<open>transactions\<close> that a row can violate: the three foreign keys. A
  statement that violates a constraint raises and changes nothing.
\<close>

definition transaction_constraints :: "db \<Rightarrow> transaction \<Rightarrow> bool" where
  "transaction_constraints d t \<longleftrightarrow>
     tx_user_id t \<in> set (users d) \<and>
     account_id t \<in> set (map acc_id (accounts d)) \<and>
     (case category_id t of None \<Rightarrow> True | Some c \<Rightarrow> c \<in> set (categories d))"

text \<open>\<^verbatim>\<open>INSERT INTO transactions ... RETURNING *\<close>; \<open>None\<close> when the statement raises.\<close>

definition insert_transaction :: "db \<Rightarrow> transaction \<Rightarrow> db option" where
  "insert_transaction d t =
     (if tx_id t \<in> set (map tx_id (transactions d)) \<or> \<not> transaction_constraints d t
      then None
      else Some (d\<lparr>transactions := transactions d @ [t]\<rparr>))"

text \<open>\<^verbatim>\<open>SELECT * FROM transactions WHERE id = $1 AND user_id = $2\<close>\<close>

definition select_transaction :: "db \<Rightarrow> string \<Rightarrow> string \<Rightarrow> transaction list" where
  "select_transaction d tid uid =
     filter (\<lambda>t. tx_id t = tid \<and> tx_user_id t = uid) (transactions d)"

text \<open>\<^verbatim>\<open>DELETE FROM transactions WHERE id = $1 AND user_id = $2\<close>\<close>

definition delete_transaction :: "db \<Rightarrow> string \<Rightarrow> string \<Rightarrow> db" where
  "delete_transaction d tid uid =
     d\<lparr>transactions := filter (\<lambda>t. \<not> (tx_id t = tid \<and> tx_user_id t = uid)) (transactions d)\<rparr>"

text \<open>
  \<^verbatim>\<open>UPDATE accounts SET current_balance = current_balance + $1, updated_at = $2
  WHERE id = $3 AND user_id = $4\<close>, and the same statement with \<^verbatim>\<open>current_balance - $1\<close>.
  A statement whose \<^verbatim>\<open>WHERE\<close> selects no row succeeds and changes nothing.
\<close>

definition add_to_balance :: "db \<Rightarrow> rat \<Rightarrow> string \<Rightarrow> string \<Rightarrow> string \<Rightarrow> db" where
  "add_to_balance d x ts aid uid =
     d\<lparr>accounts := map (\<lambda>a. if acc_id a = aid \<and> acc_user_id a = uid
                              then a\<lparr>current_balance := current_balance a + x, acc_updated_at := ts\<rparr>
                              else a) (accounts d)\<rparr>"

definition subtract_from_balance :: "db \<Rightarrow> rat \<Rightarrow> string \<Rightarrow> string \<Rightarrow> string \<Rightarrow> db" where
  "subtract_from_balance d x ts aid uid =
     d\<lparr>accounts := map (\<lambda>a. if acc_id a = aid \<and> acc_user_id a = uid
                              then a\<lparr>current_balance := current_balance a - x, acc_updated_at := ts\<rparr>
                              else a) (accounts d)\<rparr>"

text \<open>
  The \<^verbatim>\<open>SET\<close> clause of \<^verbatim>\<open>UPDATE transactions\<close> in the PUT handler, on one row.
\<close>

definition set_transaction :: "transaction_body \<Rightarrow> string \<Rightarrow> transaction \<Rightarrow> transaction" where
  "set_transaction b ts t =
     t\<lparr>account_id := coalesce (b_account_id b) (account_id t),
       date := coalesce (b_date b) (date t),
       amount := coalesce (numeric_param (b_amount b)) (amount t),
       transaction_type := coalesce (b_transaction_type b) (transaction_type t),
       description := coalesce_null (b_description b) (description t),
       category_id := coalesce_null (b_category_id b) (category_id t),
       recurrence := coalesce (b_recurrence b) (recurrence t),
       tx_updated_at := ts\<rparr>"

text \<open>
  \<^verbatim>\<open>UPDATE transactions SET ... WHERE id = $9 AND user_id = $10 RETURNING *\<close>: the new table
  and the rows returned, or \<open>None\<close> when a new row violates a constraint.
\<close>

definition update_transaction ::
  "db \<Rightarrow> transaction_body \<Rightarrow> string \<Rightarrow> string \<Rightarrow> string \<Rightarrow> (db \<times> transaction list) option" where
  "update_transaction d b ts tid uid =
     (let hit = (\<lambda>t. tx_id t = tid \<and> tx_user_id t = uid);
          rows = map (set_transaction b ts) (filter hit (transactions d))
      in if list_all (transaction_constraints d) rows
         then Some (d\<lparr>transactions := map (\<lambda>t. if hit t then set_transaction b ts t else t)
                                           (transactions d)\<rparr>, rows)
         else None)"



section \<open>Auto-categorization\<close>

text \<open>
  \<^verbatim>\<open>toLowerCase\<close> on the letters A to Z (a \<^typ>\<open>char\<close> is a byte; other bytes stay), and
  \<^verbatim>\<open>String.prototype.includes\<close>: the argument occurs in the string, starting at some
  position.
\<close>

definition lower_char :: "char \<Rightarrow> char" where
  "lower_char c =
     (let n = (of_char c :: nat) in if 65 \<le> n \<and> n \<le> 90 then char_of (n + 32) else c)"

definition toLowerCase :: "string \<Rightarrow> string" where
  "toLowerCase s = map lower_char s"

fun js_includes :: "string \<Rightarrow> string \<Rightarrow> bool" where
  "js_includes [] k = (k = [])"
| "js_includes (c # cs) k = (prefix k (c # cs) \<or> js_includes cs k)"

text \<open>
  The loop over \<^verbatim>\<open>kwResult.rows\<close> of the POST handler: \<open>Some c\<close> when it assigned
  \<^verbatim>\<open>category_id = row.category_id\<close> and left by \<^verbatim>\<open>break\<close>, \<open>None\<close> when it ran to the end.
\<close>

fun keyword_loop :: "string \<Rightarrow> keyword_rule list \<Rightarrow> string option" where
  "keyword_loop descr [] = None"
| "keyword_loop descr (row # rows) =
     (if js_includes (toLowerCase descr) (toLowerCase (keyword row))
      then Some (kw_category_id row)
      else keyword_loop descr rows)"

text \<open>
  The value of the variable \<^verbatim>\<open>category_id\<close> after
  \<^verbatim>\<open>if (!category_id && description) { ... }\<close>.
\<close>

definition auto_categorize ::
  "string option \<Rightarrow> string option \<Rightarrow> keyword_rule list \<Rightarrow> string option" where
  "auto_categorize category descr rules =
     (if \<not> truthy category \<and> truthy descr
      then (case keyword_loop (js_or descr []) rules of
              None \<Rightarrow> category
            | Some c \<Rightarrow> Some c)
      else category)"

section \<open>The handlers of \<^verbatim>\<open>backend/server.js\<close>\<close>

text \<open>
  Each handler takes the database, the authenticated \<^verbatim>\<open>req.user.id\<close>, what \<^verbatim>\<open>uuidv4()\<close> and
  \<^verbatim>\<open>getTimestamp()\<close> return in this call, and the request; it gives the response and the
  database it leaves. The statements run one after the other, outside any SQL transaction:
  what a statement has written stays written. The handlers compute
  \<^verbatim>\<open>updatedTransaction.amount - oldTransaction.amount\<close> and \<^verbatim>\<open>-transaction.amount\<close> in
  JavaScript; here these are the exact difference and the exact negation, and the rounding
  of JavaScript's numbers is left out.
\<close>

text \<open>\<^verbatim>\<open>POST /api/transactions\<close>\<close>

definition post_transaction ::
  "db \<Rightarrow> string \<Rightarrow> string \<Rightarrow> string \<Rightarrow> transaction_body \<Rightarrow> transaction response \<times> db" where
  "post_transaction d uid new_id ts b =
     (if \<not> truthy (b_account_id b) \<or> \<not> truthy (b_date b) \<or> b_amount b = Absent
         \<or> \<not> truthy (b_transaction_type b)
      then (Status400, d)
      else
        (case (b_account_id b, b_date b, numeric_param (b_amount b), b_transaction_type b) of
           (Some aid, Some dt, Some amt, Some ty) \<Rightarrow>
             (let cat = auto_categorize (b_category_id b) (b_description b) (keyword_rules d);
                  row = \<lparr>tx_id = new_id, tx_user_id = uid, account_id = aid, date = dt,
                         amount = amt, transaction_type = ty,
                         description = Some (js_or (b_description b) []),
                         category_id = (if truthy cat then cat else None),
                         recurrence = js_or (b_recurrence b) ''none'',
                         tx_created_at = ts, tx_updated_at = ts\<rparr>
              in case insert_transaction d row of
                   None \<Rightarrow> (Status500, d)
                 | Some d1 \<Rightarrow> (Status201 row, add_to_balance d1 amt ts aid uid))
         | _ \<Rightarrow> (Status500, d)))"

text \<open>
  \<^verbatim>\<open>PUT /api/transactions/:transaction_id\<close>. \<^verbatim>\<open>result.rows[0]\<close> of an empty result is
  \<^verbatim>\<open>undefined\<close>, and reading its \<^verbatim>\<open>amount\<close> raises: in the first branch after the reversal has
  run, in the second before any balance is touched.
\<close>

definition put_transaction ::
  "db \<Rightarrow> string \<Rightarrow> string \<Rightarrow> string \<Rightarrow> transaction_body \<Rightarrow> transaction response \<times> db" where
  "put_transaction d uid ts tid b =
     (case select_transaction d tid uid of
        [] \<Rightarrow> (Status404, d)
      | oldTransaction # _ \<Rightarrow>
          (case update_transaction d b ts tid uid of
             None \<Rightarrow> (Status500, d)
           | Some (d1, rows) \<Rightarrow>
               if truthy (b_account_id b) \<and> b_account_id b \<noteq> Some (account_id oldTransaction)
               then
                 (let d2 = subtract_from_balance d1 (amount oldTransaction) ts
                             (account_id oldTransaction) uid
                  in case rows of
                       [] \<Rightarrow> (Status500, d2)
                     | updatedTransaction # _ \<Rightarrow>
                         (Status200 updatedTransaction,
                          add_to_balance d2 (amount updatedTransaction) ts
                            (js_or (b_account_id b) []) uid))
               else
                 (case rows of
                    [] \<Rightarrow> (Status500, d1)
                  | updatedTransaction # _ \<Rightarrow>
                      (let diff = amount updatedTransaction - amount oldTransaction
                       in (Status200 updatedTransaction,
                           add_to_balance d1 diff ts (account_id oldTransaction) uid)))))"

text \<open>\<^verbatim>\<open>DELETE /api/transactions/:transaction_id\<close>\<close>

definition delete_transaction_handler ::
  "db \<Rightarrow> string \<Rightarrow> string \<Rightarrow> string \<Rightarrow> transaction response \<times> db" where
  "delete_transaction_handler d uid ts tid =
     (case select_transaction d tid uid of
        [] \<Rightarrow> (Status404, d)
      | transaction # _ \<Rightarrow>
          (let d1 = delete_transaction d tid uid;
               reverseAmount = - amount transaction
           in (Status204, add_to_balance d1 reverseAmount ts (account_id transaction) uid)))"


section \<open>The seed data of \<^verbatim>\<open>backend/db.sql\<close>\<close>

text \<open>The rows that \<^verbatim>\<open>db.sql\<close> inserts, in its order.\<close>

definition seed_accounts :: "account list" where
  "seed_accounts =
    [\<lparr>acc_id = ''acct1_user1'', acc_user_id = ''user1'', account_name = ''Checking Account'',
      account_type = ''checking'', initial_balance = 1500, current_balance = 1200,
      currency = ''USD'', acc_created_at = ''2023-01-01T10:00:00Z'',
      acc_updated_at = ''2023-03-15T10:00:00Z''\<rparr>,
     \<lparr>acc_id = ''acct2_user1'', acc_user_id = ''user1'', account_name = ''Savings Account'',
      account_type = ''savings'', initial_balance = 5000, current_balance = 5000,
      currency = ''USD'', acc_created_at = ''2023-01-02T10:00:00Z'',
      acc_updated_at = ''2023-01-02T10:00:00Z''\<rparr>,
     \<lparr>acc_id = ''acct1_user2'', acc_user_id = ''user2'', account_name = ''Primary Checking'',
      account_type = ''checking'', initial_balance = 2000, current_balance = 1800,
      currency = ''USD'', acc_created_at = ''2023-02-01T10:00:00Z'',
      acc_updated_at = ''2023-03-10T10:00:00Z''\<rparr>,
     \<lparr>acc_id = ''acct1_user3'', acc_user_id = ''user3'', account_name = ''Daily Expenses'',
      account_type = ''checking'', initial_balance = 1000, current_balance = 900,
      currency = ''USD'', acc_created_at = ''2023-03-01T10:00:00Z'',
      acc_updated_at = ''2023-04-01T10:00:00Z''\<rparr>,
     \<lparr>acc_id = ''acct2_user3'', acc_user_id = ''user3'', account_name = ''Investment Account'',
      account_type = ''savings'', initial_balance = 3000, current_balance = 3200,
      currency = ''USD'', acc_created_at = ''2023-03-05T10:00:00Z'',
      acc_updated_at = ''2023-04-03T10:00:00Z''\<rparr>]"

definition seed_transactions :: "transaction list" where
  "seed_transactions =
    [\<lparr>tx_id = ''tx1'', tx_user_id = ''user1'', account_id = ''acct1_user1'',
      date = ''2023-03-15'', amount = - 50, transaction_type = ''expense'',
      description = Some ''Grocery shopping'', category_id = Some ''cat1'',
      recurrence = ''none'', tx_created_at = ''2023-03-15T13:00:00Z'',
      tx_updated_at = ''2023-03-15T13:00:00Z''\<rparr>,
     \<lparr>tx_id = ''tx2'', tx_user_id = ''user1'', account_id = ''acct1_user1'',
      date = ''2023-03-16'', amount = 1500, transaction_type = ''income'',
      description = Some ''Salary received'', category_id = None,
      recurrence = ''none'', tx_created_at = ''2023-03-16T09:00:00Z'',
      tx_updated_at = ''2023-03-16T09:00:00Z''\<rparr>,
     \<lparr>tx_id = ''tx3'', tx_user_id = ''user1'', account_id = ''acct2_user1'',
      date = ''2023-03-20'', amount = - 75, transaction_type = ''expense'',
      description = Some ''Movie tickets'', category_id = Some ''cat4'',
      recurrence = ''none'', tx_created_at = ''2023-03-20T20:00:00Z'',
      tx_updated_at = ''2023-03-20T20:00:00Z''\<rparr>,
     \<lparr>tx_id = ''tx4'', tx_user_id = ''user2'', account_id = ''acct1_user2'',
      date = ''2023-03-10'', amount = - 20, transaction_type = ''expense'',
      description = Some ''Bus fare'', category_id = Some ''cat2'',
      recurrence = ''none'', tx_created_at = ''2023-03-10T08:00:00Z'',
      tx_updated_at = ''2023-03-10T08:00:00Z''\<rparr>,
     \<lparr>tx_id = ''tx5'', tx_user_id = ''user3'', account_id = ''acct1_user3'',
      date = ''2023-04-01'', amount = - 100, transaction_type = ''expense'',
      description = Some ''Dinner'', category_id = Some ''cat1'',
      recurrence = ''none'', tx_created_at = ''2023-04-01T19:00:00Z'',
      tx_updated_at = ''2023-04-01T19:00:00Z''\<rparr>,
     \<lparr>tx_id = ''tx6'', tx_user_id = ''user3'', account_id = ''acct1_user3'',
      date = ''2023-04-02'', amount = - 200, transaction_type = ''expense'',
      description = Some ''Gym membership'', category_id = Some ''cat5'',
      recurrence = ''monthly'', tx_created_at = ''2023-04-02T07:00:00Z'',
      tx_updated_at = ''2023-04-02T07:00:00Z''\<rparr>,
     \<lparr>tx_id = ''tx7'', tx_user_id = ''user3'', account_id = ''acct2_user3'',
      date = ''2023-04-03'', amount = 300, transaction_type = ''income'',
      description = Some ''Freelance project'', category_id = None,
      recurrence = ''none'', tx_created_at = ''2023-04-03T12:00:00Z'',
      tx_updated_at = ''2023-04-03T12:00:00Z''\<rparr>]"

definition seed_keyword_rules :: "keyword_rule list" where
  "seed_keyword_rules =
    [\<lparr>kw_category_id = ''cat1'', keyword = ''Starbucks''\<rparr>,
     \<lparr>kw_category_id = ''cat2'', keyword = ''Uber''\<rparr>,
     \<lparr>kw_category_id = ''cat3'', keyword = ''Electric''\<rparr>]"

definition seed_db :: db where
  "seed_db =
    \<lparr>users = [''user1'', ''user2'', ''user3''],
     accounts = seed_accounts,
     categories = [''cat1'', ''cat2'', ''cat3'', ''cat4'', ''cat5''],
     transactions = seed_transactions,
     keyword_rules = seed_keyword_rules\<rparr>"

text \<open>A request body that gives no field.\<close>

definition empty_body :: transaction_body where
  "empty_body =
    \<lparr>b_account_id = None, b_date = None, b_amount = Absent, b_transaction_type = None,
     b_description = None, b_category_id = None, b_recurrence = None\<rparr>"

text \<open>
  The users and accounts of the seed data as \<^verbatim>\<open>POST /api/accounts\<close> creates accounts
  (\<^verbatim>\<open>current_balance\<close> equal to \<^verbatim>\<open>initial_balance\<close>), before any transaction.
\<close>

definition opening_db :: db where
  "opening_db =
    seed_db\<lparr>accounts := map (\<lambda>a. a\<lparr>current_balance := initial_balance a\<rparr>) seed_accounts,
            transactions := []\<rparr>"

definition empty_account_body :: account_body where
  "empty_account_body =
    \<lparr>b_account_name = None, b_account_type = None, b_initial_balance = Absent,
     b_currency = None\<rparr>"

text \<open>A complete request for \<^verbatim>\<open>POST /api/transactions\<close> with no category.\<close>

definition new_body :: "string \<Rightarrow> rat \<Rightarrow> string \<Rightarrow> transaction_body" where
  "new_body aid q descr =
    \<lparr>b_account_id = Some aid, b_date = Some ''2023-05-01'', b_amount = Number q,
     b_transaction_type = Some (if q < 0 then ''expense'' else ''income''),
     b_description = Some descr, b_category_id = None, b_recurrence = None\<rparr>"

text \<open>A value of \<^verbatim>\<open>getTimestamp()\<close>, and the row that the POST handler builds from \<open>new_body\<close>.\<close>

definition timestamp :: string where
  "timestamp = ''2023-05-01T00:00:00.000Z''"

definition created_row ::
  "string \<Rightarrow> string \<Rightarrow> string \<Rightarrow> rat \<Rightarrow> string \<Rightarrow> string option \<Rightarrow> transaction" where
  "created_row new_id uid aid q descr cat =
    \<lparr>tx_id = new_id, tx_user_id = uid, account_id = aid, date = ''2023-05-01'', amount = q,
     transaction_type = (if q < 0 then ''expense'' else ''income''),
     description = Some descr, category_id = cat, recurrence = ''none'',
     tx_created_at = timestamp, tx_updated_at = timestamp\<rparr>"

section \<open>The properties of the specification\<close>

text \<open>
  The ledger invariant of the specification: the current balance of every account is its
  initial balance plus the sum of the amounts of the transactions that reference it.
\<close>

definition ledger_invariant :: "db \<Rightarrow> bool" where
  "ledger_invariant d \<longleftrightarrow>
     list_all (\<lambda>a. current_balance a =
                 initial_balance a
                 + sum_list (map amount (filter (\<lambda>t. account_id t = acc_id a) (transactions d))))
       (accounts d)"

text \<open>Every account with the id \<open>aid\<close> belongs to the user \<open>uid\<close>.\<close>

definition owned_by :: "db \<Rightarrow> string \<Rightarrow> string \<Rightarrow> bool" where
  "owned_by d uid aid \<longleftrightarrow>
     list_all (\<lambda>a. acc_id a \<noteq> aid \<or> acc_user_id a = uid) (accounts d)"




section \<open>Facts about the SQL statements\<close>

lemma transactions_add_to_balance [simp]:
  "transactions (add_to_balance d x ts aid uid) = transactions d"
  by (simp add: add_to_balance_def)

lemma transactions_subtract_from_balance [simp]:
  "transactions (subtract_from_balance d x ts aid uid) = transactions d"
  by (simp add: subtract_from_balance_def)

lemma length_accounts_add_to_balance [simp]:
  "length (accounts (add_to_balance d x ts aid uid)) = length (accounts d)"
  by (simp add: add_to_balance_def)

lemma length_accounts_subtract_from_balance [simp]:
  "length (accounts (subtract_from_balance d x ts aid uid)) = length (accounts d)"
  by (simp add: subtract_from_balance_def)

lemma accounts_delete_transaction [simp]:
  "accounts (delete_transaction d tid uid) = accounts d"
  by (simp add: delete_transaction_def)

lemma add_to_balance_nth:
  "i < length (accounts d) \<Longrightarrow>
     accounts (add_to_balance d x ts aid uid) ! i =
       (if acc_id (accounts d ! i) = aid \<and> acc_user_id (accounts d ! i) = uid
        then (accounts d ! i)\<lparr>current_balance := current_balance (accounts d ! i) + x,
                               acc_updated_at := ts\<rparr>
        else accounts d ! i)"
  by (simp add: add_to_balance_def)

lemma subtract_from_balance_nth:
  "i < length (accounts d) \<Longrightarrow>
     accounts (subtract_from_balance d x ts aid uid) ! i =
       (if acc_id (accounts d ! i) = aid \<and> acc_user_id (accounts d ! i) = uid
        then (accounts d ! i)\<lparr>current_balance := current_balance (accounts d ! i) - x,
                               acc_updated_at := ts\<rparr>
        else accounts d ! i)"
  by (simp add: subtract_from_balance_def)

text \<open>A balance update for an account that the caller does not own selects no row.\<close>

lemma add_to_balance_not_owned:
  assumes "\<forall>a\<in>set (accounts d). acc_id a = aid \<longrightarrow> acc_user_id a \<noteq> uid"
  shows "add_to_balance d x ts aid uid = d"
proof -
  have "map (\<lambda>a. if acc_id a = aid \<and> acc_user_id a = uid
                  then a\<lparr>current_balance := current_balance a + x, acc_updated_at := ts\<rparr>
                  else a) (accounts d) = accounts d"
    using assms by (intro map_idI) auto
  then show ?thesis by (simp add: add_to_balance_def)
qed

lemma update_transaction_Some:
  "update_transaction d b ts tid uid = Some (d1, rows) \<Longrightarrow>
     transactions d1 = map (\<lambda>t. if tx_id t = tid \<and> tx_user_id t = uid
                                 then set_transaction b ts t else t) (transactions d)
     \<and> accounts d1 = accounts d
     \<and> rows = map (set_transaction b ts) (select_transaction d tid uid)"
  by (auto simp: update_transaction_def select_transaction_def Let_def split: if_splits)

text \<open>With a primary key, a \<^verbatim>\<open>WHERE id = ...\<close> selects the one row that has the id.\<close>

lemma filter_key_unique:
  "distinct (map f xs) \<Longrightarrow> x \<in> set xs \<Longrightarrow>
     filter (\<lambda>y. f y = f x \<and> P y) xs = (if P x then [x] else [])"
proof (induction xs)
  case Nil
  then show ?case by simp
next
  case (Cons y ys)
  show ?case
  proof (cases "y = x")
    case True
    with Cons.prems have "\<forall>z\<in>set ys. f z \<noteq> f x" by (auto simp: image_iff)
    then have "filter (\<lambda>y. f y = f x \<and> P y) ys = []" by (simp add: filter_empty_conv)
    with True show ?thesis by simp
  next
    case False
    with Cons.prems have "x \<in> set ys" "f y \<noteq> f x" by (auto simp: image_iff)
    with Cons show ?thesis by simp
  qed
qed

lemma filter_not_key_unique:
  "distinct (map f xs) \<Longrightarrow> x \<in> set xs \<Longrightarrow> P x \<Longrightarrow>
     filter (\<lambda>y. \<not> (f y = f x \<and> P y)) xs = removeAll x xs"
proof (induction xs)
  case Nil
  then show ?case by simp
next
  case (Cons y ys)
  show ?case
  proof (cases "y = x")
    case True
    with Cons.prems have "\<forall>z\<in>set ys. f z \<noteq> f x" by (auto simp: image_iff)
    then have "filter (\<lambda>y. \<not> (f y = f x \<and> P y)) ys = ys" "x \<notin> set ys"
      by (auto simp: filter_id_conv)
    with True Cons.prems show ?thesis by simp
  next
    case False
    with Cons.prems have "x \<in> set ys" "f y \<noteq> f x" by (auto simp: image_iff)
    with Cons False show ?thesis by simp
  qed
qed

lemma select_transaction_unique:
  assumes "distinct (map tx_id (transactions d))" "t \<in> set (transactions d)"
    "tx_id t = tid" "tx_user_id t = uid"
  shows "select_transaction d tid uid = [t]"
  using filter_key_unique [OF assms(1,2), of "\<lambda>u. tx_user_id u = uid"] assms(3,4)
  by (simp add: select_transaction_def)


lemma delete_transaction_unique:
  assumes "distinct (map tx_id (transactions d))" "t \<in> set (transactions d)"
    "tx_id t = tid" "tx_user_id t = uid"
  shows "transactions (delete_transaction d tid uid) = removeAll t (transactions d)"
  using filter_not_key_unique [OF assms(1,2), of "\<lambda>u. tx_user_id u = uid"] assms(3,4)
  by (simp add: delete_transaction_def)

section \<open>Facts about the handlers\<close>

text \<open>What a 201 of \<^verbatim>\<open>POST /api/transactions\<close> tells about the request and the database.\<close>

lemma post_transaction_201:
  assumes "post_transaction d uid new_id ts b = (Status201 row, d')"
  shows "\<exists>aid dt amt ty.
      b_account_id b = Some aid \<and> aid \<noteq> [] \<and> b_date b = Some dt \<and> b_amount b = Number amt
      \<and> b_transaction_type b = Some ty
      \<and> row = \<lparr>tx_id = new_id, tx_user_id = uid, account_id = aid, date = dt,
                 amount = amt, transaction_type = ty,
                 description = Some (js_or (b_description b) []),
                 category_id =
                   (if truthy (auto_categorize (b_category_id b) (b_description b) (keyword_rules d))
                    then auto_categorize (b_category_id b) (b_description b) (keyword_rules d)
                    else None),
                 recurrence = js_or (b_recurrence b) ''none'',
                 tx_created_at = ts, tx_updated_at = ts\<rparr>
      \<and> new_id \<notin> set (map tx_id (transactions d)) \<and> transaction_constraints d row
      \<and> d' = add_to_balance (d\<lparr>transactions := transactions d @ [row]\<rparr>) amt ts aid uid"
proof -
  from assms obtain aid dt amt ty where f:
    "b_account_id b = Some aid" "b_date b = Some dt" "numeric_param (b_amount b) = Some amt"
    "b_transaction_type b = Some ty" "truthy (b_account_id b)"
    by (auto simp: post_transaction_def split: if_splits option.splits)
  from f(3) have amt: "b_amount b = Number amt" by (cases "b_amount b") simp_all
  from f(1,5) have ne: "aid \<noteq> []" by (simp add: truthy_def)
  show ?thesis
    using assms f amt ne
    by (auto simp: post_transaction_def insert_transaction_def Let_def split: if_splits option.splits)
qed

lemma post_transaction_not_owned:
  assumes p: "post_transaction d uid new_id ts b = (Status201 row, d')"
    and n: "\<forall>a\<in>set (accounts d). acc_id a = account_id row \<longrightarrow> acc_user_id a \<noteq> uid"
  shows "d' = d\<lparr>transactions := transactions d @ [row]\<rparr>"
proof -
  from post_transaction_201 [OF p] obtain aid amt where
    r: "account_id row = aid"
    and d': "d' = add_to_balance (d\<lparr>transactions := transactions d @ [row]\<rparr>) amt ts aid uid"
    by auto
  from n r have "\<forall>a\<in>set (accounts (d\<lparr>transactions := transactions d @ [row]\<rparr>)).
      acc_id a = aid \<longrightarrow> acc_user_id a \<noteq> uid" by simp
  from add_to_balance_not_owned [OF this] d' show ?thesis by simp
qed

lemma post_transaction_never_404:
  "fst (post_transaction d uid new_id ts b) \<noteq> Status404"
  by (auto simp: post_transaction_def Let_def split: option.splits prod.splits)

lemma post_transaction_missing_field:
  "\<not> truthy (b_account_id b) \<or> \<not> truthy (b_date b) \<or> b_amount b = Absent
     \<or> \<not> truthy (b_transaction_type b) \<Longrightarrow>
   post_transaction d uid new_id ts b = (Status400, d)"
  by (auto simp: post_transaction_def)

lemma post_transaction_absent_account:
  assumes "b_account_id b = Some aid" "aid \<notin> set (map acc_id (accounts d))"
  shows "post_transaction d uid new_id ts b = (Status400, d)
       \<or> post_transaction d uid new_id ts b = (Status500, d)"
  using assms
  by (auto simp: post_transaction_def insert_transaction_def transaction_constraints_def Let_def
      split: option.splits)

text \<open>What a 200 of \<^verbatim>\<open>PUT /api/transactions/:transaction_id\<close> tells.\<close>

lemma put_transaction_transactions:
  "transactions (snd (put_transaction d uid ts tid b)) = transactions d \<or>
   transactions (snd (put_transaction d uid ts tid b)) =
     map (\<lambda>t. if tx_id t = tid \<and> tx_user_id t = uid then set_transaction b ts t else t)
       (transactions d)"
  by (auto simp: put_transaction_def Let_def dest!: update_transaction_Some
      split: list.splits option.splits prod.splits)

lemma put_transaction_200:
  assumes pk: "distinct (map tx_id (transactions d))"
    and old: "old \<in> set (transactions d)" "tx_id old = tid" "tx_user_id old = uid"
    and put: "put_transaction d uid ts tid b = (Status200 new, d')"
  shows "new = set_transaction b ts old
    \<and> (\<exists>d1. accounts d1 = accounts d
          \<and> d' = (if truthy (b_account_id b) \<and> b_account_id b \<noteq> Some (account_id old)
                   then add_to_balance
                          (subtract_from_balance d1 (amount old) ts (account_id old) uid)
                          (amount new) ts (js_or (b_account_id b) []) uid
                   else add_to_balance d1 (amount new - amount old) ts (account_id old) uid))"
proof -
  have sel: "select_transaction d tid uid = [old]"
    by (rule select_transaction_unique [OF pk old])
  from put sel obtain d1 rows where upd: "update_transaction d b ts tid uid = Some (d1, rows)"
    by (auto simp: put_transaction_def split: option.splits)
  from update_transaction_Some [OF upd] sel
  have rows: "rows = [set_transaction b ts old]" and acc: "accounts d1 = accounts d" by simp_all
  from put sel upd rows have "new = set_transaction b ts old"
    by (auto simp: put_transaction_def Let_def split: if_splits)
  moreover from put sel upd rows
  have "d' = (if truthy (b_account_id b) \<and> b_account_id b \<noteq> Some (account_id old)
                   then add_to_balance
                          (subtract_from_balance d1 (amount old) ts (account_id old) uid)
                          (amount new) ts (js_or (b_account_id b) []) uid
                   else add_to_balance d1 (amount new - amount old) ts (account_id old) uid)"
    by (auto simp: put_transaction_def Let_def split: if_splits)
  ultimately show ?thesis using acc by blast
qed

lemma put_transaction_balance_row:
  assumes pk: "distinct (map tx_id (transactions d))"
    and old: "old \<in> set (transactions d)" "tx_id old = tid" "tx_user_id old = uid"
    and put: "put_transaction d uid ts tid b = (Status200 new, d')"
    and i: "i < length (accounts d)"
  shows "length (accounts d') = length (accounts d)"
    and "acc_id (accounts d' ! i) = acc_id (accounts d ! i)"
    and "acc_user_id (accounts d' ! i) = acc_user_id (accounts d ! i)"
    and "initial_balance (accounts d' ! i) = initial_balance (accounts d ! i)"
    and "b_account_id b = None \<or> b_account_id b = Some (account_id old) \<Longrightarrow>
          account_id new = account_id old \<and>
          current_balance (accounts d' ! i) = current_balance (accounts d ! i)
            + (if acc_id (accounts d ! i) = account_id old \<and> acc_user_id (accounts d ! i) = uid
               then amount new - amount old else 0)"
    and "b_account_id b = Some n \<Longrightarrow> n \<noteq> [] \<Longrightarrow> n \<noteq> account_id old \<Longrightarrow>
          account_id new = n \<and>
          current_balance (accounts d' ! i) = current_balance (accounts d ! i)
            - (if acc_id (accounts d ! i) = account_id old \<and> acc_user_id (accounts d ! i) = uid
               then amount old else 0)
            + (if acc_id (accounts d ! i) = n \<and> acc_user_id (accounts d ! i) = uid
               then amount new else 0)"
proof -
  from put_transaction_200 [OF pk old put] obtain d1 where
    new: "new = set_transaction b ts old" and acc: "accounts d1 = accounts d"
    and d': "d' = (if truthy (b_account_id b) \<and> b_account_id b \<noteq> Some (account_id old)
                   then add_to_balance
                          (subtract_from_balance d1 (amount old) ts (account_id old) uid)
                          (amount new) ts (js_or (b_account_id b) []) uid
                   else add_to_balance d1 (amount new - amount old) ts (account_id old) uid)"
    by blast
  from i acc have i1: "i < length (accounts d1)" by simp
  show "length (accounts d') = length (accounts d)" by (simp add: d' acc)
  show "acc_id (accounts d' ! i) = acc_id (accounts d ! i)"
    using i1 by (simp add: d' add_to_balance_nth subtract_from_balance_nth acc)
  show "acc_user_id (accounts d' ! i) = acc_user_id (accounts d ! i)"
    using i1 by (simp add: d' add_to_balance_nth subtract_from_balance_nth acc)
  show "initial_balance (accounts d' ! i) = initial_balance (accounts d ! i)"
    using i1 by (simp add: d' add_to_balance_nth subtract_from_balance_nth acc)
  show "account_id new = account_id old \<and>
          current_balance (accounts d' ! i) = current_balance (accounts d ! i)
            + (if acc_id (accounts d ! i) = account_id old \<and> acc_user_id (accounts d ! i) = uid
               then amount new - amount old else 0)"
    if "b_account_id b = None \<or> b_account_id b = Some (account_id old)"
    using that i1
    by (auto simp: d' new add_to_balance_nth acc set_transaction_def coalesce_def truthy_def)
  show "account_id new = n \<and>
          current_balance (accounts d' ! i) = current_balance (accounts d ! i)
            - (if acc_id (accounts d ! i) = account_id old \<and> acc_user_id (accounts d ! i) = uid
               then amount old else 0)
            + (if acc_id (accounts d ! i) = n \<and> acc_user_id (accounts d ! i) = uid
               then amount new else 0)"
    if "b_account_id b = Some n" "n \<noteq> []" "n \<noteq> account_id old"
    using that i1
    by (auto simp: d' new add_to_balance_nth subtract_from_balance_nth acc set_transaction_def
        coalesce_def truthy_def js_or_def)
qed


lemma put_transaction_200_length:
  assumes "distinct (map tx_id (transactions d))"
    and "old \<in> set (transactions d)" "tx_id old = tid" "tx_user_id old = uid"
    and "put_transaction d uid ts tid b = (Status200 new, d')"
  shows "length (accounts d') = length (accounts d)"
proof -
  from put_transaction_200 [OF assms] obtain d1 where
    "accounts d1 = accounts d"
    "d' = (if truthy (b_account_id b) \<and> b_account_id b \<noteq> Some (account_id old)
           then add_to_balance
                  (subtract_from_balance d1 (amount old) ts (account_id old) uid)
                  (amount new) ts (js_or (b_account_id b) []) uid
           else add_to_balance d1 (amount new - amount old) ts (account_id old) uid)"
    by blast
  then show ?thesis by simp
qed

lemma put_transaction_200_transactions:
  assumes pk: "distinct (map tx_id (transactions d))"
    and old: "old \<in> set (transactions d)" "tx_id old = tid" "tx_user_id old = uid"
    and put: "put_transaction d uid ts tid b = (Status200 new, d')"
  shows "transactions d' =
     map (\<lambda>t. if tx_id t = tx_id old \<and> tx_user_id t = uid then set_transaction b ts t else t)
       (transactions d)"
proof -
  have sel: "select_transaction d tid uid = [old]"
    by (rule select_transaction_unique [OF pk old])
  from put sel obtain d1 rows where upd: "update_transaction d b ts tid uid = Some (d1, rows)"
    by (auto simp: put_transaction_def split: option.splits)
  from update_transaction_Some [OF upd] sel
  have rows: "rows = [set_transaction b ts old]"
    and tx: "transactions d1 = map (\<lambda>t. if tx_id t = tid \<and> tx_user_id t = uid
                                 then set_transaction b ts t else t) (transactions d)"
    by simp_all
  from put sel upd rows have "transactions d' = transactions d1"
    by (auto simp: put_transaction_def Let_def split: if_splits)
  with tx old(2) show ?thesis by simp
qed

section \<open>Facts about the sums of the invariant\<close>

lemma ledger_invariant_nth:
  "ledger_invariant d \<longleftrightarrow>
     (\<forall>i<length (accounts d).
        current_balance (accounts d ! i) =
          initial_balance (accounts d ! i)
          + sum_list (map amount (filter (\<lambda>t. account_id t = acc_id (accounts d ! i))
                                    (transactions d))))"
  by (simp add: ledger_invariant_def list_all_length)

lemma owned_by_nth:
  "owned_by d uid aid \<Longrightarrow> i < length (accounts d) \<Longrightarrow> acc_id (accounts d ! i) = aid \<Longrightarrow>
     acc_user_id (accounts d ! i) = uid"
  by (auto simp: owned_by_def list_all_length)

lemma sum_amounts_removeAll:
  "distinct (map tx_id txs) \<Longrightarrow> t \<in> set txs \<Longrightarrow>
     sum_list (map amount (filter P (removeAll t txs))) =
       sum_list (map amount (filter P txs)) - (if P t then amount t else 0)"
proof (induction txs)
  case Nil
  then show ?case by simp
next
  case (Cons u us)
  show ?case
  proof (cases "u = t")
    case True
    with Cons.prems have "t \<notin> set us" by (auto simp: image_iff)
    with True show ?thesis by simp
  next
    case False
    with Cons show ?thesis by simp
  qed
qed

lemma sum_amounts_replace:
  "distinct (map tx_id txs) \<Longrightarrow> old \<in> set txs \<Longrightarrow> Q old \<Longrightarrow>
     sum_list (map amount (filter P
        (map (\<lambda>t. if tx_id t = tx_id old \<and> Q t then g t else t) txs))) =
       sum_list (map amount (filter P txs)) - (if P old then amount old else 0)
         + (if P (g old) then amount (g old) else 0)"
proof (induction txs)
  case Nil
  then show ?case by simp
next
  case (Cons u us)
  show ?case
  proof (cases "u = old")
    case True
    with Cons.prems have "\<forall>z\<in>set us. tx_id z \<noteq> tx_id old" by (auto simp: image_iff)
    then have "map (\<lambda>t. if tx_id t = tx_id old \<and> Q t then g t else t) us = us"
      by (intro map_idI) auto
    with True Cons.prems show ?thesis by simp
  next
    case False
    with Cons.prems have "old \<in> set us" "tx_id u \<noteq> tx_id old" by (auto simp: image_iff)
    with Cons show ?thesis by simp
  qed
qed

section \<open>Facts about the keyword match\<close>










text \<open>The definitions that an evaluation on the seed data unfolds.\<close>

lemmas seed_defs = seed_db_def seed_accounts_def seed_transactions_def seed_keyword_rules_def
  opening_db_def empty_body_def empty_account_body_def new_body_def timestamp_def
  created_row_def

section \<open>The ledger invariant on the caller's own accounts\<close>

text \<open>
  As long as the accounts that a request touches are the caller's, the three handlers keep
  the invariant: a create that is answered with 201, a delete of a transaction of the
  caller, and an update that is answered with 200 and gives no empty \<^verbatim>\<open>account_id\<close>.
\<close>

lemma post_transaction_keeps_invariant:
  assumes inv: "ledger_invariant d"
    and p: "post_transaction d uid new_id ts b = (Status201 row, d')"
    and own: "owned_by d uid (account_id row)"
  shows "ledger_invariant d'"
proof -
  from post_transaction_201 [OF p] obtain aid amt where
    r: "account_id row = aid" "amount row = amt"
    and d': "d' = add_to_balance (d\<lparr>transactions := transactions d @ [row]\<rparr>) amt ts aid uid"
    by auto
  show ?thesis
    unfolding ledger_invariant_nth
  proof (intro allI impI)
    fix i assume "i < length (accounts d')"
    then have i: "i < length (accounts d)" by (simp add: d')
    from inv i have "current_balance (accounts d ! i) =
          initial_balance (accounts d ! i)
          + sum_list (map amount (filter (\<lambda>t. account_id t = acc_id (accounts d ! i))
                                    (transactions d)))"
      by (simp add: ledger_invariant_nth)
    with i owned_by_nth [OF own i] r
    show "current_balance (accounts d' ! i) =
          initial_balance (accounts d' ! i)
          + sum_list (map amount (filter (\<lambda>t. account_id t = acc_id (accounts d' ! i))
                                    (transactions d')))"
      by (auto simp: d' add_to_balance_nth)
  qed
qed

lemma delete_transaction_keeps_invariant:
  assumes inv: "ledger_invariant d"
    and pk: "distinct (map tx_id (transactions d))"
    and t: "t \<in> set (transactions d)" "tx_id t = tid" "tx_user_id t = uid"
    and own: "owned_by d uid (account_id t)"
  shows "ledger_invariant (snd (delete_transaction_handler d uid ts tid))"
proof -
  let ?d' = "add_to_balance (delete_transaction d tid uid) (- amount t) ts (account_id t) uid"
  have h: "snd (delete_transaction_handler d uid ts tid) = ?d'"
    using select_transaction_unique [OF pk t]
    by (simp add: delete_transaction_handler_def Let_def)
  show ?thesis
    unfolding ledger_invariant_nth h
  proof (intro allI impI)
    fix i
    assume "i < length (accounts ?d')"
    then have i: "i < length (accounts d)" by simp
    from inv i have "current_balance (accounts d ! i) =
          initial_balance (accounts d ! i)
          + sum_list (map amount (filter (\<lambda>t. account_id t = acc_id (accounts d ! i))
                                    (transactions d)))"
      by (simp add: ledger_invariant_nth)
    with i owned_by_nth [OF own i]
    show "current_balance (accounts ?d' ! i) =
          initial_balance (accounts ?d' ! i)
          + sum_list (map amount (filter (\<lambda>u. account_id u = acc_id (accounts ?d' ! i))
                                    (transactions ?d')))"
      by (auto simp: add_to_balance_nth delete_transaction_unique [OF pk t]
          sum_amounts_removeAll [OF pk t(1)])
  qed
qed

lemma put_transaction_keeps_invariant:
  assumes inv: "ledger_invariant d"
    and pk: "distinct (map tx_id (transactions d))"
    and old: "old \<in> set (transactions d)" "tx_id old = tid" "tx_user_id old = uid"
    and put: "put_transaction d uid ts tid b = (Status200 new, d')"
    and own: "owned_by d uid (account_id old)" "owned_by d uid (account_id new)"
    and ne: "b_account_id b \<noteq> Some []"
  shows "ledger_invariant d'"
  unfolding ledger_invariant_nth
proof (intro allI impI)
  fix i assume "i < length (accounts d')"
  with put_transaction_200_length [OF pk old put] have i: "i < length (accounts d)" by simp
  note row = put_transaction_balance_row [OF pk old put i]
  from put_transaction_200 [OF pk old put] have new: "new = set_transaction b ts old" by blast
  let ?a = "accounts d ! i"
  let ?P = "\<lambda>t. account_id t = acc_id ?a"
  have tx: "sum_list (map amount (filter ?P (transactions d'))) =
      sum_list (map amount (filter ?P (transactions d)))
        - (if ?P old then amount old else 0) + (if ?P new then amount new else 0)"
    using sum_amounts_replace [OF pk old(1), of "\<lambda>t. tx_user_id t = uid" ?P "set_transaction b ts"]
      old(3)
    by (simp add: put_transaction_200_transactions [OF pk old put] new)
  from inv i have before: "current_balance ?a =
      initial_balance ?a + sum_list (map amount (filter ?P (transactions d)))"
    by (simp add: ledger_invariant_nth)
  have o1: "acc_id ?a = account_id old \<Longrightarrow> acc_user_id ?a = uid"
    using owned_by_nth [OF own(1) i] by simp
  have o2: "acc_id ?a = account_id new \<Longrightarrow> acc_user_id ?a = uid"
    using owned_by_nth [OF own(2) i] by simp
  have cb: "current_balance (accounts d' ! i) = current_balance ?a
      - (if ?P old then amount old else 0) + (if ?P new then amount new else 0)"
  proof (cases "b_account_id b = None \<or> b_account_id b = Some (account_id old)")
    case True
    from row(5) [OF True] o1 show ?thesis by auto
  next
    case False
    then obtain n where n: "b_account_id b = Some n" "n \<noteq> account_id old" by auto
    with ne have "n \<noteq> []" by auto
    from row(6) [OF n(1) this n(2)] o1 o2 show ?thesis by auto
  qed
  show "current_balance (accounts d' ! i) =
      initial_balance (accounts d' ! i)
      + sum_list (map amount (filter (\<lambda>t. account_id t = acc_id (accounts d' ! i))
                                (transactions d')))"
    by (simp add: row(2) row(4) cb tx before)
qed

section \<open>The ledger invariant across a create\<close>

text \<open>
  Claim C1. The claim says that \<open>ledger_invariant\<close> holds after every create, update and
  delete. \<^verbatim>\<open>POST /api/transactions\<close> breaks it: when the request names an account of another
  user and is answered with 201, the row is stored on that account while the balance update,
  which is restricted to the caller's accounts, reaches no row. So a database that satisfies
  the invariant does not satisfy it afterwards, for every such request with a non-zero
  amount.
\<close>

theorem ledger_invariant_broken_by_post:
  assumes inv: "ledger_invariant d"
    and p: "post_transaction d uid new_id ts b = (Status201 row, d')"
    and a: "a \<in> set (accounts d)" "acc_id a = account_id row" "acc_user_id a \<noteq> uid"
    and nz: "amount row \<noteq> 0"
  shows "\<not> ledger_invariant d'"
proof
  assume inv': "ledger_invariant d'"
  from post_transaction_201 [OF p] obtain aid amt where
    r: "account_id row = aid"
    and d': "d' = add_to_balance (d\<lparr>transactions := transactions d @ [row]\<rparr>) amt ts aid uid"
    by auto
  have tx': "transactions d' = transactions d @ [row]" by (simp add: d')
  from a have "a \<in> set (accounts d')"
    by (auto simp: d' add_to_balance_def image_iff intro!: bexI [of _ a])
  with inv' have "current_balance a = initial_balance a
      + sum_list (map amount (filter (\<lambda>t. account_id t = acc_id a) (transactions d')))"
    by (simp add: ledger_invariant_def list_all_iff)
  moreover from inv a(1) have "current_balance a = initial_balance a
      + sum_list (map amount (filter (\<lambda>t. account_id t = acc_id a) (transactions d)))"
    by (simp add: ledger_invariant_def list_all_iff)
  ultimately show False using a(2) nz by (simp add: tx')
qed

text \<open>
  On the opening database user2 books 100 on \<^verbatim>\<open>acct1_user1\<close>, the account of user1: the
  answer is 201 and the invariant is gone.
\<close>

theorem ledger_invariant_broken_by_post_witness:
  "ledger_invariant opening_db
   \<and> fst (post_transaction opening_db ''user2'' ''tx8'' timestamp
           (new_body ''acct1_user1'' 100 ''Refund''))
       = Status201 (created_row ''tx8'' ''user2'' ''acct1_user1'' 100 ''Refund'' None)
   \<and> \<not> ledger_invariant (snd (post_transaction opening_db ''user2'' ''tx8'' timestamp
                               (new_body ''acct1_user1'' 100 ''Refund'')))"
proof -
  let ?p = "post_transaction opening_db ''user2'' ''tx8'' timestamp
              (new_body ''acct1_user1'' 100 ''Refund'')"
  let ?row = "created_row ''tx8'' ''user2'' ''acct1_user1'' 100 ''Refund'' None"
  let ?a = "(seed_accounts ! 0)\<lparr>current_balance := 1500\<rparr>"
  have inv: "ledger_invariant opening_db"
    by (simp add: ledger_invariant_def seed_defs)
  have r: "fst ?p = Status201 ?row" by code_simp
  then have p: "?p = (Status201 ?row, snd ?p)" by (simp add: prod_eq_iff)
  have a: "?a \<in> set (accounts opening_db)" "acc_id ?a = account_id ?row"
    "acc_user_id ?a \<noteq> ''user2''" "amount ?row \<noteq> 0"
    by (simp_all add: seed_defs)
  from ledger_invariant_broken_by_post [OF inv p a] inv r show ?thesis by simp
qed

section \<open>A create or an update that writes only half\<close>

text \<open>
  Claim C2. The claim says that the record and the balance are written together or not at
  all, and that a create whose balance update cannot be applied stores no record. The
  handlers run their statements one by one and never look at the row count of the balance
  update: a create on an account that is not the caller's, once answered with 201, has
  stored the record and changed no account; an update that moves a transaction to an
  account that is not the caller's has moved the record and taken the old amount from the
  old account, and has added nothing to the new one.
\<close>

theorem post_transaction_partial_write:
  "(post_transaction d uid new_id ts b = (Status201 row, d')
      \<and> (\<forall>a\<in>set (accounts d). acc_id a = account_id row \<longrightarrow> acc_user_id a \<noteq> uid) \<longrightarrow>
    transactions d' = transactions d @ [row] \<and> accounts d' = accounts d)
   \<and> (distinct (map tx_id (transactions d)) \<and> old \<in> set (transactions d) \<and> tx_id old = tid
      \<and> tx_user_id old = uid \<and> put_transaction d uid ts tid b = (Status200 new, d'')
      \<and> b_account_id b = Some n \<and> n \<noteq> [] \<and> n \<noteq> account_id old
      \<and> (\<forall>a\<in>set (accounts d). acc_id a = n \<longrightarrow> acc_user_id a \<noteq> uid)
      \<and> i < length (accounts d) \<longrightarrow>
    account_id new = n
    \<and> current_balance (accounts d'' ! i) =
        (if acc_id (accounts d ! i) = account_id old \<and> acc_user_id (accounts d ! i) = uid
         then current_balance (accounts d ! i) - amount old
         else current_balance (accounts d ! i)))"
proof -
  have 1: "transactions d' = transactions d @ [row] \<and> accounts d' = accounts d"
    if "post_transaction d uid new_id ts b = (Status201 row, d')"
      and "\<forall>a\<in>set (accounts d). acc_id a = account_id row \<longrightarrow> acc_user_id a \<noteq> uid"
    using post_transaction_not_owned [OF that] by simp
  have 2: "account_id new = n
    \<and> current_balance (accounts d'' ! i) =
        (if acc_id (accounts d ! i) = account_id old \<and> acc_user_id (accounts d ! i) = uid
         then current_balance (accounts d ! i) - amount old
         else current_balance (accounts d ! i))"
    if pk: "distinct (map tx_id (transactions d))"
      and old: "old \<in> set (transactions d)" "tx_id old = tid" "tx_user_id old = uid"
      and put: "put_transaction d uid ts tid b = (Status200 new, d'')"
      and b: "b_account_id b = Some n" "n \<noteq> []" "n \<noteq> account_id old"
      and n: "\<forall>a\<in>set (accounts d). acc_id a = n \<longrightarrow> acc_user_id a \<noteq> uid"
      and i: "i < length (accounts d)"
  proof -
    from i n have "acc_id (accounts d ! i) = n \<longrightarrow> acc_user_id (accounts d ! i) \<noteq> uid"
      by auto
    with put_transaction_balance_row(6) [OF pk old put i b] show ?thesis by auto
  qed
  from 1 2 show ?thesis by blast
qed

text \<open>
  The same request as above: the record of user2 is stored, and the accounts are what they
  were.
\<close>

theorem post_transaction_partial_write_witness:
  "transactions (snd (post_transaction opening_db ''user2'' ''tx8'' timestamp
                        (new_body ''acct1_user1'' 100 ''Refund'')))
     = [created_row ''tx8'' ''user2'' ''acct1_user1'' 100 ''Refund'' None]
   \<and> accounts (snd (post_transaction opening_db ''user2'' ''tx8'' timestamp
                      (new_body ''acct1_user1'' 100 ''Refund'')))
     = accounts opening_db"
proof -
  let ?p = "post_transaction opening_db ''user2'' ''tx8'' timestamp
              (new_body ''acct1_user1'' 100 ''Refund'')"
  let ?row = "created_row ''tx8'' ''user2'' ''acct1_user1'' 100 ''Refund'' None"
  have "fst ?p = Status201 ?row" by code_simp
  then have p: "?p = (Status201 ?row, snd ?p)" by (simp add: prod_eq_iff)
  have n: "\<forall>a\<in>set (accounts opening_db). acc_id a = account_id ?row \<longrightarrow> acc_user_id a \<noteq> ''user2''"
    by (simp add: seed_defs)
  have e: "transactions opening_db = []" by (simp add: seed_defs)
  from post_transaction_partial_write [of opening_db "''user2''" "''tx8''" timestamp
      "new_body ''acct1_user1'' 100 ''Refund''" ?row "snd ?p"] p n e
  show ?thesis by simp
qed

section \<open>The answers of a create\<close>

text \<open>
  Claim C3. The claim says that a create answers NotFound when the account is absent or is
  not the caller's, answers ValidationError when a required field is missing, and stores
  nothing in either case. Of this \<^verbatim>\<open>POST /api/transactions\<close> does the second part only. It
  never answers 404; a missing \<^verbatim>\<open>account_id\<close>, \<^verbatim>\<open>date\<close>, \<^verbatim>\<open>amount\<close> or \<^verbatim>\<open>transaction_type\<close> gives
  400 and an unchanged database; an account that does not exist gives 400 or 500 and an
  unchanged database (the foreign key stops the insertion); and a request on an account that
  exists and is not the caller's, when it is answered with 201, has stored its row.
\<close>

theorem post_transaction_responses:
  "fst (post_transaction d uid new_id ts b) \<noteq> Status404
   \<and> (\<not> truthy (b_account_id b) \<or> \<not> truthy (b_date b) \<or> b_amount b = Absent
        \<or> \<not> truthy (b_transaction_type b) \<longrightarrow>
      post_transaction d uid new_id ts b = (Status400, d))
   \<and> (b_account_id b = Some aid \<and> aid \<notin> set (map acc_id (accounts d)) \<longrightarrow>
        post_transaction d uid new_id ts b = (Status400, d)
      \<or> post_transaction d uid new_id ts b = (Status500, d))
   \<and> (post_transaction d uid new_id ts b = (Status201 row, d')
        \<and> (\<forall>a\<in>set (accounts d). acc_id a = account_id row \<longrightarrow> acc_user_id a \<noteq> uid) \<longrightarrow>
      d' = d\<lparr>transactions := transactions d @ [row]\<rparr>)"
proof (intro conjI impI)
  show "fst (post_transaction d uid new_id ts b) \<noteq> Status404"
    by (rule post_transaction_never_404)
  show "post_transaction d uid new_id ts b = (Status400, d)"
    if "\<not> truthy (b_account_id b) \<or> \<not> truthy (b_date b) \<or> b_amount b = Absent
        \<or> \<not> truthy (b_transaction_type b)"
    using that by (rule post_transaction_missing_field)
  show "post_transaction d uid new_id ts b = (Status400, d)
      \<or> post_transaction d uid new_id ts b = (Status500, d)"
    if "b_account_id b = Some aid \<and> aid \<notin> set (map acc_id (accounts d))"
    using that post_transaction_absent_account [of b aid d uid new_id ts] by simp
  show "d' = d\<lparr>transactions := transactions d @ [row]\<rparr>"
    if "post_transaction d uid new_id ts b = (Status201 row, d')
        \<and> (\<forall>a\<in>set (accounts d). acc_id a = account_id row \<longrightarrow> acc_user_id a \<noteq> uid)"
    using that post_transaction_not_owned [of d uid new_id ts b row d'] by simp
qed

text \<open>
  User2 on the account of user1: 201, and the database is the old one with the new row. A
  request without fields: 400. A request on an account that does not exist: 500.
\<close>

theorem post_transaction_responses_witness:
  "post_transaction opening_db ''user2'' ''tx8'' timestamp (new_body ''acct1_user1'' 100 ''Refund'')
     = (Status201 (created_row ''tx8'' ''user2'' ''acct1_user1'' 100 ''Refund'' None),
        opening_db\<lparr>transactions :=
          [created_row ''tx8'' ''user2'' ''acct1_user1'' 100 ''Refund'' None]\<rparr>)
   \<and> post_transaction opening_db ''user2'' ''tx8'' timestamp empty_body = (Status400, opening_db)
   \<and> post_transaction opening_db ''user2'' ''tx8'' timestamp (new_body ''no_such_account'' 100 ''Refund'')
     = (Status500, opening_db)"
proof -
  let ?p = "post_transaction opening_db ''user2'' ''tx8'' timestamp
              (new_body ''acct1_user1'' 100 ''Refund'')"
  let ?row = "created_row ''tx8'' ''user2'' ''acct1_user1'' 100 ''Refund'' None"
  have r: "fst ?p = Status201 ?row" by code_simp
  then have p: "?p = (Status201 ?row, snd ?p)" by (simp add: prod_eq_iff)
  have n: "\<forall>a\<in>set (accounts opening_db). acc_id a = account_id ?row \<longrightarrow> acc_user_id a \<noteq> ''user2''"
    by (simp add: seed_defs)
  have e: "transactions opening_db = []" by (simp add: seed_defs)
  have m: "\<not> truthy (b_account_id empty_body)" by (simp add: truthy_def empty_body_def)
  have s: "fst (post_transaction opening_db ''user2'' ''tx8'' timestamp
             (new_body ''no_such_account'' 100 ''Refund'')) = Status500"
    by code_simp
  have ab: "b_account_id (new_body ''no_such_account'' 100 ''Refund'') = Some ''no_such_account''"
    "''no_such_account'' \<notin> set (map acc_id (accounts opening_db))"
    by (simp_all add: seed_defs)
  from post_transaction_responses [of opening_db "''user2''" "''tx8''" timestamp
      "new_body ''acct1_user1'' 100 ''Refund''" "''x''" ?row "snd ?p"] p n e
  have 1: "snd ?p = opening_db\<lparr>transactions := [?row]\<rparr>" by simp
  from post_transaction_responses [of opening_db "''user2''" "''tx8''" timestamp empty_body] m
  have 2: "post_transaction opening_db ''user2'' ''tx8'' timestamp empty_body
      = (Status400, opening_db)" by blast
  from post_transaction_responses [of opening_db "''user2''" "''tx8''" timestamp
      "new_body ''no_such_account'' 100 ''Refund''" "''no_such_account''"] ab s
  have 3: "post_transaction opening_db ''user2'' ''tx8'' timestamp
      (new_body ''no_such_account'' 100 ''Refund'') = (Status500, opening_db)" by auto
  from p 1 2 3 show ?thesis by simp
qed

section \<open>The balances after an update\<close>




section \<open>What an account edit changes\<close>




section \<open>The first matching rule gives the category\<close>



section \<open>The category that a create stores\<close>



section \<open>The effect of a delete\<close>




section \<open>Updating a transaction keeps its category\<close>

text \<open>
  Claim C10. \<^verbatim>\<open>PUT /api/transactions/:transaction_id\<close> never turns a category into
  \<^verbatim>\<open>NULL\<close>: whatever the request and whatever the response, the table keeps its rows in
  place with their ids, a row whose \<^verbatim>\<open>category_id\<close> was not \<^verbatim>\<open>NULL\<close> has one that is not
  \<^verbatim>\<open>NULL\<close> afterwards, and a request with a null or absent \<^verbatim>\<open>category_id\<close> leaves the
  category of every row as it was.
\<close>

theorem put_transaction_keeps_category:
  assumes "i < length (transactions d)"
  shows "length (transactions (snd (put_transaction d uid ts tid b))) = length (transactions d)
    \<and> tx_id (transactions (snd (put_transaction d uid ts tid b)) ! i) = tx_id (transactions d ! i)
    \<and> (category_id (transactions d ! i) \<noteq> None \<longrightarrow>
         category_id (transactions (snd (put_transaction d uid ts tid b)) ! i) \<noteq> None)
    \<and> (b_category_id b = None \<longrightarrow>
         category_id (transactions (snd (put_transaction d uid ts tid b)) ! i)
           = category_id (transactions d ! i))"
  using assms put_transaction_transactions [of d uid ts tid b]
  by (auto simp: set_transaction_def coalesce_null_def split: option.splits)

text \<open>
  On the seed data: user1 changes the amount of \<^verbatim>\<open>tx1\<close> and sends no category; the update
  goes through and \<^verbatim>\<open>tx1\<close> is still in \<^verbatim>\<open>cat1\<close>.
\<close>

theorem put_transaction_keeps_category_witness:
  "tx_id (transactions seed_db ! 0) = ''tx1''
   \<and> category_id (transactions seed_db ! 0) = Some ''cat1''
   \<and> amount (transactions
        (snd (put_transaction seed_db ''user1'' timestamp ''tx1''
               (empty_body\<lparr>b_amount := Number (- 75)\<rparr>))) ! 0) = - 75
   \<and> category_id (transactions
        (snd (put_transaction seed_db ''user1'' timestamp ''tx1''
               (empty_body\<lparr>b_amount := Number (- 75)\<rparr>))) ! 0) = Some ''cat1''"
proof -
  have len: "0 < length (transactions seed_db)"
    by (simp add: seed_defs)
  have before: "tx_id (transactions seed_db ! 0) = ''tx1''
      \<and> category_id (transactions seed_db ! 0) = Some ''cat1''"
    by (simp add: seed_defs)
  have no_cat: "b_category_id (empty_body\<lparr>b_amount := Number (- 75)\<rparr>) = None"
    by (simp add: empty_body_def)
  have amt: "amount (transactions
        (snd (put_transaction seed_db ''user1'' timestamp ''tx1''
               (empty_body\<lparr>b_amount := Number (- 75)\<rparr>))) ! 0) = - 75"
    by code_simp
  from put_transaction_keeps_category [OF len, of "''user1''" timestamp "''tx1''"
      "empty_body\<lparr>b_amount := Number (- 75)\<rparr>"] no_cat before amt
  show ?thesis by simp
qed

end
